theory Spec2Isabelle
  imports Complex_Main "HOL-Library.AList"
begin

section \<open>Conventions\<close>

text \<open>
  The C++ sources are embedded shallowly. A pointer is an address, a \<open>double\<close> is a
  \<open>real\<close> (the comparisons and selections of the setters are exact on every
  \<open>double\<close> that is a number; NaN and rounding are outside this model), an exception
  is the left summand of a result, and a member function that mutates its object
  returns the updated object.
\<close>

type_synonym addr = nat

type_synonym Coord = "real \<times> real \<times> real"

datatype msg =
    error_different_mol
  | error_hydrogen
  | err_msg_bonded
  | err_msg_no_residue
  | Dihedral_definition_already_exists
  | Unrecognised_dihedral_def

datatype error = logic_error msg | runtime_error msg | out_of_range msg

section \<open>Constants (constants.h)\<close>

definition LINEAR_RESTRAINT_MAX_RADIUS :: real where
  "LINEAR_RESTRAINT_MAX_RADIUS = 3 / 10"

definition LINEAR_RESTRAINT_MIN_RADIUS :: real where
  "LINEAR_RESTRAINT_MIN_RADIUS = 25 / 1000"

definition MAX_LINEAR_SPRING_CONSTANT :: real where
  "MAX_LINEAR_SPRING_CONSTANT = 100000"

definition MIN_DISTANCE_RESTRAINT_TARGET :: real where
  "MIN_DISTANCE_RESTRAINT_TARGET = 1"

text \<open>\<^verbatim>\<open>M_PI\<close> is read as the real number \<open>\<pi>\<close>.\<close>

definition TWO_PI :: real where
  "TWO_PI = 2 * pi"

section \<open>Change tracker\<close>

datatype reason =
    REASON_RESTRAINT_CREATED
  | REASON_TARGET_CHANGED
  | REASON_SPRING_CONSTANT_CHANGED
  | REASON_ENABLED_CHANGED

text \<open>
  The restraint classes report to their manager with
  \<^verbatim>\<open>_mgr->track_change(this, reason)\<close>. The manager base class and
  \<^verbatim>\<open>changetracker.h\<close> are not among the sources, so every operation below takes
  that member function as its first argument: \<open>track mgr obj why ct\<close> is the tracker
  \<open>ct\<close> after manager \<open>mgr\<close> has reported \<open>why\<close> for object \<open>obj\<close>.
\<close>

type_synonym 'ct track_fn = "addr \<Rightarrow> addr \<Rightarrow> reason \<Rightarrow> 'ct \<Rightarrow> 'ct"

text \<open>
  Modelled from the spec: \<^verbatim>\<open>Change_Tracker::track_change\<close> (changetracker.h is
  missing). The record is a mapping from (manager identity, changed-object identity)
  to a set of reason flags; tracking a change adds the flag to that object's set, so
  that repeated identical reasons collapse.
\<close>

type_synonym Change_Tracker = "addr \<times> addr \<Rightarrow> reason set"

definition track_change :: "Change_Tracker track_fn" where
  "track_change mgr obj why ct = ct((mgr, obj) := insert why (ct (mgr, obj)))"

section \<open>Atoms (interface of the host's atomic model)\<close>

text \<open>
  Of an atom the sources read its structure, its element number, its coordinate and
  its bonds; a bond is given by the two atoms it joins.
\<close>

record Atom =
  a_structure :: addr
  a_element_number :: nat
  a_coord :: Coord
  a_bonds :: "(addr \<times> addr) list"

section \<open>Position restraints (position_restraints.cpp)\<close>

text \<open>\<open>pr_this\<close> is the address of the object, the \<^verbatim>\<open>this\<close> it reports.\<close>

record Position_Restraint =
  pr_this :: addr
  pr_atom :: addr
  pr_target :: Coord
  pr_mgr :: addr
  pr_spring_constant :: real
  pr_enabled :: bool

fun Position_Restraint_set_target ::
  "'ct track_fn \<Rightarrow> Coord \<Rightarrow> Position_Restraint \<times> 'ct \<Rightarrow> Position_Restraint \<times> 'ct" where
  "Position_Restraint_set_target track xyz (r, ct) =
     (r\<lparr>pr_target := xyz\<rparr>,
      track (pr_mgr r) (pr_this r) REASON_TARGET_CHANGED ct)"

fun Position_Restraint_set_k ::
  "'ct track_fn \<Rightarrow> real \<Rightarrow> Position_Restraint \<times> 'ct \<Rightarrow> Position_Restraint \<times> 'ct" where
  "Position_Restraint_set_k track k (r, ct) =
     (r\<lparr>pr_spring_constant :=
          (if k < 0 then 0
           else if k > MAX_LINEAR_SPRING_CONSTANT then MAX_LINEAR_SPRING_CONSTANT
           else k)\<rparr>,
      track (pr_mgr r) (pr_this r) REASON_SPRING_CONSTANT_CHANGED ct)"

fun Position_Restraint_set_enabled ::
  "'ct track_fn \<Rightarrow> bool \<Rightarrow> Position_Restraint \<times> 'ct \<Rightarrow> Position_Restraint \<times> 'ct" where
  "Position_Restraint_set_enabled track flag (r, ct) =
     (if pr_enabled r \<noteq> flag
      then (r\<lparr>pr_enabled := flag\<rparr>,
            track (pr_mgr r) (pr_this r) REASON_ENABLED_CHANGED ct)
      else (r, ct))"

definition Position_Restraint_radius :: "Position_Restraint \<Rightarrow> real" where
  "Position_Restraint_radius r =
     pr_spring_constant r / MAX_LINEAR_SPRING_CONSTANT
       * (LINEAR_RESTRAINT_MAX_RADIUS - LINEAR_RESTRAINT_MIN_RADIUS)
     + LINEAR_RESTRAINT_MIN_RADIUS"

section \<open>Distance restraints (distance_restraints.cpp)\<close>

record Distance_Restraint =
  dr_this :: addr
  dr_atoms :: "addr \<times> addr"
  dr_mgr :: addr
  dr_target :: real
  dr_spring_constant :: real
  dr_enabled :: bool

fun Distance_Restraint_set_target ::
  "'ct track_fn \<Rightarrow> real \<Rightarrow> Distance_Restraint \<times> 'ct \<Rightarrow> Distance_Restraint \<times> 'ct" where
  "Distance_Restraint_set_target track target (r, ct) =
     (r\<lparr>dr_target :=
          (if target < MIN_DISTANCE_RESTRAINT_TARGET then MIN_DISTANCE_RESTRAINT_TARGET
           else target)\<rparr>,
      track (dr_mgr r) (dr_this r) REASON_TARGET_CHANGED ct)"

fun Distance_Restraint_set_k ::
  "'ct track_fn \<Rightarrow> real \<Rightarrow> Distance_Restraint \<times> 'ct \<Rightarrow> Distance_Restraint \<times> 'ct" where
  "Distance_Restraint_set_k track k (r, ct) =
     (r\<lparr>dr_spring_constant :=
          (if k < 0 then 0
           else if k > MAX_LINEAR_SPRING_CONSTANT then MAX_LINEAR_SPRING_CONSTANT
           else k)\<rparr>,
      track (dr_mgr r) (dr_this r) REASON_SPRING_CONSTANT_CHANGED ct)"

fun Distance_Restraint_set_enabled ::
  "'ct track_fn \<Rightarrow> bool \<Rightarrow> Distance_Restraint \<times> 'ct \<Rightarrow> Distance_Restraint \<times> 'ct" where
  "Distance_Restraint_set_enabled track flag (r, ct) =
     (if dr_enabled r \<noteq> flag
      then (r\<lparr>dr_enabled := flag\<rparr>,
            track (dr_mgr r) (dr_this r) REASON_ENABLED_CHANGED ct)
      else (r, ct))"

definition Distance_Restraint_radius :: "Distance_Restraint \<Rightarrow> real" where
  "Distance_Restraint_radius r =
     sqrt (dr_spring_constant r / MAX_LINEAR_SPRING_CONSTANT)
       * (LINEAR_RESTRAINT_MAX_RADIUS - LINEAR_RESTRAINT_MIN_RADIUS)
     + LINEAR_RESTRAINT_MIN_RADIUS"

text \<open>
  The three-argument constructor. \<open>blank\<close> is the object as allocated, with its
  address and the in-class initialisers of the header (which is not among the
  sources) in place; the constructor checks the bonds of \<open>a1\<close>, then stores the
  manager and the atoms.
\<close>

definition bonded_to :: "addr \<Rightarrow> (addr \<times> addr) list \<Rightarrow> bool" where
  "bonded_to a2 bs = list_ex (\<lambda>b. list_ex (\<lambda>a. a = a2) [fst b, snd b]) bs"

definition Distance_Restraint_ctor ::
  "(addr \<Rightarrow> Atom) \<Rightarrow> Distance_Restraint \<Rightarrow> addr \<Rightarrow> addr \<Rightarrow> addr
     \<Rightarrow> error + Distance_Restraint" where
  "Distance_Restraint_ctor atoms blank a1 a2 mgr =
     (if bonded_to a2 (a_bonds (atoms a1)) then Inl (logic_error err_msg_bonded)
      else Inr (blank\<lparr>dr_mgr := mgr, dr_atoms := (a1, a2)\<rparr>))"


section \<open>Position restraint manager (position_restraints.cpp)\<close>

record Position_Restraint_Mgr =
  pm_this :: addr
  pm_atomic_model :: addr
  pm_atom_to_restraint :: "addr \<rightharpoonup> Position_Restraint"

text \<open>
  The constructor of the header: the fields default to spring constant \<open>0.0\<close> and
  \<open>enabled = false\<close>, and the body calls \<open>set_target\<close>, which overwrites the target
  at once. \<open>this\<close> is the address \<^verbatim>\<open>new\<close> returned.
\<close>

definition Position_Restraint_ctor ::
  "'ct track_fn \<Rightarrow> addr \<Rightarrow> addr \<Rightarrow> Coord \<Rightarrow> addr \<Rightarrow> 'ct \<Rightarrow> Position_Restraint \<times> 'ct" where
  "Position_Restraint_ctor track this atom target mgr ct =
     Position_Restraint_set_target track target
       (\<lparr>pr_this = this, pr_atom = atom, pr_target = (0, 0, 0), pr_mgr = mgr,
         pr_spring_constant = 0, pr_enabled = False\<rparr>, ct)"

text \<open>
  \<^verbatim>\<open>_new_restraint(atom, target)\<close>. \<^verbatim>\<open>track_created\<close> belongs to the missing
  manager base class; it is taken to report the creation through the same tracker.
\<close>

definition new_restraint_target ::
  "'ct track_fn \<Rightarrow> (addr \<Rightarrow> Atom) \<Rightarrow> addr \<Rightarrow> addr \<Rightarrow> Coord
     \<Rightarrow> Position_Restraint_Mgr \<times> 'ct
     \<Rightarrow> error + Position_Restraint \<times> Position_Restraint_Mgr \<times> 'ct" where
  "new_restraint_target track atoms fresh atom target s =
     (case s of (m, ct) \<Rightarrow>
        if a_structure (atoms atom) \<noteq> pm_atomic_model m
          then Inl (logic_error error_different_mol)
        else if a_element_number (atoms atom) = 1
          then Inl (logic_error error_hydrogen)
        else
          (case Position_Restraint_ctor track fresh atom target (pm_this m) ct of
             (restraint, ct1) \<Rightarrow>
               Inr (restraint,
                    m\<lparr>pm_atom_to_restraint := (pm_atom_to_restraint m)(atom \<mapsto> restraint)\<rparr>,
                    track (pm_this m) (pr_this restraint) REASON_RESTRAINT_CREATED ct1)))"

text \<open>\<^verbatim>\<open>_new_restraint(atom)\<close>: the target is the atom's coordinate.\<close>

definition new_restraint ::
  "'ct track_fn \<Rightarrow> (addr \<Rightarrow> Atom) \<Rightarrow> addr \<Rightarrow> addr
     \<Rightarrow> Position_Restraint_Mgr \<times> 'ct
     \<Rightarrow> error + Position_Restraint \<times> Position_Restraint_Mgr \<times> 'ct" where
  "new_restraint track atoms fresh atom s =
     new_restraint_target track atoms fresh atom (a_coord (atoms atom)) s"

text \<open>\<open>None\<close> is the null pointer.\<close>

definition get_restraint ::
  "'ct track_fn \<Rightarrow> (addr \<Rightarrow> Atom) \<Rightarrow> addr \<Rightarrow> addr \<Rightarrow> bool
     \<Rightarrow> Position_Restraint_Mgr \<times> 'ct
     \<Rightarrow> error + Position_Restraint option \<times> Position_Restraint_Mgr \<times> 'ct" where
  "get_restraint track atoms fresh atom create s =
     (case pm_atom_to_restraint (fst s) atom of
        Some r \<Rightarrow> Inr (Some r, s)
      | None \<Rightarrow>
          if create then
            (case new_restraint track atoms fresh atom s of
               Inl e \<Rightarrow> Inl e
             | Inr (r, s') \<Rightarrow> Inr (Some r, s'))
          else Inr (None, s))"

section \<open>Distance restraint manager\<close>

record Distance_Restraint_Mgr =
  dm_this :: addr
  dm_atomic_model :: addr
  dm_restraints :: "Distance_Restraint list"

text \<open>
  Modelled from the spec: the in-class initialisers of \<^verbatim>\<open>Distance_Restraint\<close>
  (distance_restraints.h is missing). A new restraint has spring constant 0 and is
  disabled; the spec gives no initial target distance, so it is the parameter \<open>t0\<close>.
\<close>

definition Distance_Restraint_blank :: "addr \<Rightarrow> real \<Rightarrow> Distance_Restraint" where
  "Distance_Restraint_blank this t0 =
     \<lparr>dr_this = this, dr_atoms = (0, 0), dr_mgr = 0, dr_target = t0,
      dr_spring_constant = 0, dr_enabled = False\<rparr>"

text \<open>
  Modelled from the spec: the lookup of the distance manager (distance_restraints.h
  is missing). There is one restraint per atom pair, whichever atom is named first.
\<close>

definition find_restraint :: "addr \<Rightarrow> addr \<Rightarrow> Distance_Restraint list \<Rightarrow> Distance_Restraint option" where
  "find_restraint a1 a2 rs =
     find (\<lambda>r. dr_atoms r = (a1, a2) \<or> dr_atoms r = (a2, a1)) rs"

text \<open>
  Modelled from the spec: \<^verbatim>\<open>Distance_Restraint_Mgr::get_restraint(a1, a2, create)\<close>
  (declared in the missing distance_restraints.h; only its caller in molc.cpp is
  among the sources). The call returns the existing restraint, or null when there is
  none and \<open>create\<close> is false, or constructs one, which fails when an atom belongs to
  another structure than the manager's and, in the constructor of the source, when
  the atoms are bonded.
\<close>

definition Distance_Restraint_Mgr_get_restraint ::
  "(addr \<Rightarrow> Atom) \<Rightarrow> addr \<Rightarrow> real \<Rightarrow> addr \<Rightarrow> addr \<Rightarrow> bool
     \<Rightarrow> Distance_Restraint_Mgr
     \<Rightarrow> error + Distance_Restraint option \<times> Distance_Restraint_Mgr" where
  "Distance_Restraint_Mgr_get_restraint atoms fresh t0 a1 a2 create m =
     (case find_restraint a1 a2 (dm_restraints m) of
        Some r \<Rightarrow> Inr (Some r, m)
      | None \<Rightarrow>
          if \<not> create then Inr (None, m)
          else if a_structure (atoms a1) \<noteq> dm_atomic_model m
                  \<or> a_structure (atoms a2) \<noteq> dm_atomic_model m
            then Inl (logic_error error_different_mol)
          else
            (case Distance_Restraint_ctor atoms (Distance_Restraint_blank fresh t0)
                    a1 a2 (dm_this m) of
               Inl e \<Rightarrow> Inl e
             | Inr r \<Rightarrow> Inr (Some r, m\<lparr>dm_restraints := r # dm_restraints m\<rparr>)))"

section \<open>Dihedrals (dihedral.h)\<close>

text \<open>
  \<open>d_target_angle = None\<close> is the initial \<^verbatim>\<open>NAN_NOT_SET\<close>; \<open>d_residue = None\<close>
  is the null residue pointer.
\<close>

record Dihedral =
  d_atoms :: "addr list"
  d_name :: string
  d_residue :: "addr option"
  d_target_angle :: "real option"
  d_spring_constant :: real

text \<open>
  \<^verbatim>\<open>remainder(x, y)\<close> of the C library: \<open>x - n * y\<close>, where \<open>n\<close> is the integer
  nearest to the exact quotient \<open>x / y\<close>, the even one when two are equally near.
  The result is exact in IEEE arithmetic. \<open>y\<close> is never zero here.
\<close>

definition rint_even :: "real \<Rightarrow> int" where
  "rint_even q =
     (if q - of_int \<lfloor>q\<rfloor> < 1 / 2 then \<lfloor>q\<rfloor>
      else if 1 / 2 < q - of_int \<lfloor>q\<rfloor> then \<lfloor>q\<rfloor> + 1
      else if even \<lfloor>q\<rfloor> then \<lfloor>q\<rfloor>
      else \<lfloor>q\<rfloor> + 1)"

definition remainder :: "real \<Rightarrow> real \<Rightarrow> real" where
  "remainder x y = x - of_int (rint_even (x / y)) * y"

definition Dihedral_target :: "Dihedral \<Rightarrow> real option" where
  "Dihedral_target d = d_target_angle d"

definition Dihedral_set_target :: "real \<Rightarrow> Dihedral \<Rightarrow> Dihedral" where
  "Dihedral_set_target val d = d\<lparr>d_target_angle := Some (remainder val TWO_PI)\<rparr>"

text \<open>
  \<^verbatim>\<open>Dihedral::residue()\<close> is defined in dihedral.cpp, which is not among the
  sources; by its caller's comment it "returns an error if no residue assigned", and
  the header holds the message for it.
\<close>

definition Dihedral_residue :: "Dihedral \<Rightarrow> error + addr" where
  "Dihedral_residue d =
     (case d_residue d of
        None \<Rightarrow> Inl (runtime_error err_msg_no_residue)
      | Some r \<Rightarrow> Inr r)"

section \<open>Dihedral manager (dihedral_mgr.h, dihedral_mgr.cpp)\<close>

text \<open>
  The unordered maps that are iterated and counted are association lists with one
  entry per key (the order of iteration of an unordered map is not specified, and no
  result below depends on it); the registry of definitions is only looked up and is a
  map. Dihedrals are held by pointer, and \<open>heap\<close> gives the object at an address.
\<close>

type_synonym Dmap = "(string \<times> addr) list"
type_synonym Rmap = "(addr \<times> Dmap) list"
type_synonym d_def = "string list \<times> bool list"
type_synonym Amap = "string \<rightharpoonup> d_def"
type_synonym Nmap = "string \<rightharpoonup> Amap"

record Dihedral_Mgr =
  residue_map :: Rmap
  residue_name_map :: Nmap
  dihedrals :: "addr list"

text \<open>
  \<^verbatim>\<open>add_dihedral_def\<close>. \<^verbatim>\<open>_residue_name_map[rname]\<close> inserts an empty map for a
  new residue name. A \<^verbatim>\<open>std::runtime_error\<close> is not a \<^verbatim>\<open>std::out_of_range\<close>,
  so the handler does not catch the throw of the duplicate case, and it leaves the
  function; the state returned is the state at that moment.
\<close>

definition add_dihedral_def ::
  "string \<Rightarrow> string \<Rightarrow> string list \<Rightarrow> bool list \<Rightarrow> Dihedral_Mgr
     \<Rightarrow> error option \<times> Dihedral_Mgr" where
  "add_dihedral_def rname dname anames externals m =
     (let am = (case residue_name_map m rname of None \<Rightarrow> Map.empty | Some am \<Rightarrow> am);
          m1 = m\<lparr>residue_name_map := (residue_name_map m)(rname \<mapsto> am)\<rparr>
      in case am dname of
           Some dd \<Rightarrow> (Some (runtime_error Dihedral_definition_already_exists), m1)
         | None \<Rightarrow>
             (None, m1\<lparr>residue_name_map :=
                        (residue_name_map m1)(rname \<mapsto> am(dname \<mapsto> (anames, externals)))\<rparr>))"

definition get_dihedral_def :: "string \<Rightarrow> string \<Rightarrow> Dihedral_Mgr \<Rightarrow> error + d_def" where
  "get_dihedral_def rname dname m =
     (case residue_name_map m rname of
        None \<Rightarrow> Inl (out_of_range Unrecognised_dihedral_def)
      | Some am \<Rightarrow>
          (case am dname of
             None \<Rightarrow> Inl (out_of_range Unrecognised_dihedral_def)
           | Some dd \<Rightarrow> Inr dd))"

fun count_dmap :: "Dmap \<Rightarrow> nat \<Rightarrow> nat" where
  "count_dmap [] count = count"
| "count_dmap (dm # rest) count = count_dmap rest (Suc count)"

fun count_rmap :: "Rmap \<Rightarrow> nat \<Rightarrow> nat" where
  "count_rmap [] count = count"
| "count_rmap (rm # rest) count = count_rmap rest (count_dmap (snd rm) count)"

definition num_mapped_dihedrals :: "Dihedral_Mgr \<Rightarrow> nat" where
  "num_mapped_dihedrals m = count_rmap (residue_map m) 0"

text \<open>
  \<^verbatim>\<open>add_dihedral\<close>. The handler of the \<^verbatim>\<open>std::runtime_error\<close> returns, with the
  vector already updated.
\<close>

definition dmap_of :: "Rmap \<Rightarrow> addr \<Rightarrow> Dmap" where
  "dmap_of rm r = (case map_of rm r of None \<Rightarrow> [] | Some dm \<Rightarrow> dm)"

definition add_dihedral :: "(addr \<Rightarrow> Dihedral) \<Rightarrow> addr \<Rightarrow> Dihedral_Mgr \<Rightarrow> Dihedral_Mgr" where
  "add_dihedral heap d m =
     (let m1 = (if d \<notin> set (dihedrals m) then m\<lparr>dihedrals := dihedrals m @ [d]\<rparr> else m)
      in case Dihedral_residue (heap d) of
           Inl e \<Rightarrow> m1
         | Inr r \<Rightarrow>
             if d_name (heap d) \<noteq> []
             then m1\<lparr>residue_map :=
                       AList.update r
                         (AList.update (d_name (heap d)) d (dmap_of (residue_map m1) r))
                         (residue_map m1)\<rparr>
             else m1)"

fun add_dihedrals :: "(addr \<Rightarrow> Dihedral) \<Rightarrow> addr list \<Rightarrow> Dihedral_Mgr \<Rightarrow> Dihedral_Mgr" where
  "add_dihedrals heap [] m = m"
| "add_dihedrals heap (d # ds) m = add_dihedrals heap ds (add_dihedral heap d m)"

text \<open>
  \<^verbatim>\<open>destructors_done\<close>: the loop over the names of one residue, the loop over the
  residues, and the loop over the vector of dihedrals.
\<close>

fun purge_dmap :: "addr set \<Rightarrow> Dmap \<Rightarrow> Dmap" where
  "purge_dmap destroyed [] = []"
| "purge_dmap destroyed (it2 # rest) =
     (if snd it2 \<in> destroyed then purge_dmap destroyed rest
      else it2 # purge_dmap destroyed rest)"

fun purge_rmap :: "addr set \<Rightarrow> Rmap \<Rightarrow> Rmap" where
  "purge_rmap destroyed [] = []"
| "purge_rmap destroyed (it1 # rest) =
     (if fst it1 \<in> destroyed then purge_rmap destroyed rest
      else (fst it1, purge_dmap destroyed (snd it1)) # purge_rmap destroyed rest)"

fun purge_dihedrals :: "addr set \<Rightarrow> addr list \<Rightarrow> addr list" where
  "purge_dihedrals destroyed [] = []"
| "purge_dihedrals destroyed (it # rest) =
     (if it \<in> destroyed then purge_dihedrals destroyed rest
      else it # purge_dihedrals destroyed rest)"

definition destructors_done :: "addr set \<Rightarrow> Dihedral_Mgr \<Rightarrow> Dihedral_Mgr" where
  "destructors_done destroyed m =
     m\<lparr>residue_map := purge_rmap destroyed (residue_map m),
       dihedrals := purge_dihedrals destroyed (dihedrals m)\<rparr>"

text \<open>The dihedrals that the index by residue and name holds.\<close>

fun rmap_entries :: "Rmap \<Rightarrow> (addr \<times> string \<times> addr) list" where
  "rmap_entries [] = []"
| "rmap_entries (rm # rest) = map (Pair (fst rm)) (snd rm) @ rmap_entries rest"

definition mapped_dihedrals :: "Dihedral_Mgr \<Rightarrow> (addr \<times> string \<times> addr) list" where
  "mapped_dihedrals m = rmap_entries (residue_map m)"

section \<open>Sequences of operations and concrete objects\<close>




text \<open>
  Concrete objects for the evaluations below: a tracker with nothing recorded, a
  position restraint at address 200 on atom 11, a distance restraint at address 300
  between atoms 11 and 17, both of manager 50.
\<close>

definition no_changes :: Change_Tracker where
  "no_changes = (\<lambda>_. {})"

definition example_position_restraint :: Position_Restraint where
  "example_position_restraint =
     \<lparr>pr_this = 200, pr_atom = 11, pr_target = (1, 2, 3), pr_mgr = 50,
      pr_spring_constant = 5, pr_enabled = False\<rparr>"

definition example_distance_restraint :: Distance_Restraint where
  "example_distance_restraint =
     \<lparr>dr_this = 300, dr_atoms = (11, 17), dr_mgr = 50, dr_target = 2,
      dr_spring_constant = 50, dr_enabled = False\<rparr>"

text \<open>
  A structure at address 1000 with the carbon atoms 11 to 14 bonded in a chain, the
  hydrogen 15 bonded to atom 14, and the carbon 17 with no bonds; atom 16 is a carbon
  of another structure. Every other address reads as an unbonded carbon of the
  structure.
\<close>

definition example_atoms :: "addr \<Rightarrow> Atom" where
  "example_atoms a =
     (if a = 11 then \<lparr>a_structure = 1000, a_element_number = 6, a_coord = (0, 0, 0),
                     a_bonds = [(11, 12)]\<rparr>
      else if a = 12 then \<lparr>a_structure = 1000, a_element_number = 6, a_coord = (1, 0, 0),
                     a_bonds = [(11, 12), (12, 13)]\<rparr>
      else if a = 13 then \<lparr>a_structure = 1000, a_element_number = 6, a_coord = (1, 1, 0),
                     a_bonds = [(12, 13), (13, 14)]\<rparr>
      else if a = 14 then \<lparr>a_structure = 1000, a_element_number = 6, a_coord = (1, 1, 1),
                     a_bonds = [(13, 14), (14, 15)]\<rparr>
      else if a = 15 then \<lparr>a_structure = 1000, a_element_number = 1, a_coord = (2, 1, 1),
                     a_bonds = [(14, 15)]\<rparr>
      else if a = 16 then \<lparr>a_structure = 2000, a_element_number = 6, a_coord = (9, 9, 9),
                     a_bonds = []\<rparr>
      else \<lparr>a_structure = 1000, a_element_number = 6, a_coord = (5, 0, 0),
            a_bonds = []\<rparr>)"

definition example_position_mgr :: Position_Restraint_Mgr where
  "example_position_mgr =
     \<lparr>pm_this = 50, pm_atomic_model = 1000,
      pm_atom_to_restraint = Map.empty(11 \<mapsto> example_position_restraint)\<rparr>"

definition example_distance_mgr :: Distance_Restraint_Mgr where
  "example_distance_mgr =
     \<lparr>dm_this = 50, dm_atomic_model = 1000,
      dm_restraints = [example_distance_restraint]\<rparr>"

text \<open>
  The proper dihedral at address 100 over the atoms 11, 12, 13, 14, named phi, of the
  residue at address 10, and a manager to which it has been added.
\<close>

definition example_dihedral :: Dihedral where
  "example_dihedral =
     \<lparr>d_atoms = [11, 12, 13, 14], d_name = ''phi'', d_residue = Some 10,
      d_target_angle = None, d_spring_constant = 0\<rparr>"

definition example_heap :: "addr \<Rightarrow> Dihedral" where
  "example_heap p = example_dihedral"


definition empty_mgr :: Dihedral_Mgr where
  "empty_mgr = \<lparr>residue_map = [], residue_name_map = Map.empty, dihedrals = []\<rparr>"

definition example_mgr :: Dihedral_Mgr where
  "example_mgr = add_dihedral example_heap 100 empty_mgr"

definition example_def_mgr :: Dihedral_Mgr where
  "example_def_mgr =
     snd (add_dihedral_def ''ALA'' ''phi'' [''C'', ''N'', ''CA'', ''C'']
            [True, False, False, False] empty_mgr)"

section \<open>Spring constants and radii\<close>

text \<open>
  C4. For a position restraint and for a distance restraint, and every real \<open>v\<close>:
  after \<open>set_k v\<close> the stored spring constant is 0 when \<open>v < 0\<close>, is
  \<open>MAX_LINEAR_SPRING_CONSTANT\<close> when \<open>v\<close> exceeds it, and is \<open>v\<close> otherwise.
\<close>

theorem set_k_clamps:
  "(v < 0 \<longrightarrow>
      pr_spring_constant (fst (Position_Restraint_set_k track v (p, ct))) = 0 \<and>
      dr_spring_constant (fst (Distance_Restraint_set_k track v (d, ct))) = 0) \<and>
   (MAX_LINEAR_SPRING_CONSTANT < v \<longrightarrow>
      pr_spring_constant (fst (Position_Restraint_set_k track v (p, ct))) = MAX_LINEAR_SPRING_CONSTANT \<and>
      dr_spring_constant (fst (Distance_Restraint_set_k track v (d, ct))) = MAX_LINEAR_SPRING_CONSTANT) \<and>
   (0 \<le> v \<and> v \<le> MAX_LINEAR_SPRING_CONSTANT \<longrightarrow>
      pr_spring_constant (fst (Position_Restraint_set_k track v (p, ct))) = v \<and>
      dr_spring_constant (fst (Distance_Restraint_set_k track v (d, ct))) = v)"
  by (simp add: MAX_LINEAR_SPRING_CONSTANT_def)

text \<open>C4, at the values \<open>-1\<close>, \<open>200000\<close> and \<open>50\<close>.\<close>

theorem set_k_clamps_witness:
  "pr_spring_constant (fst (Position_Restraint_set_k track_change (- 1)
      (example_position_restraint, no_changes))) = 0 \<and>
   dr_spring_constant (fst (Distance_Restraint_set_k track_change (- 1)
      (example_distance_restraint, no_changes))) = 0 \<and>
   pr_spring_constant (fst (Position_Restraint_set_k track_change 200000
      (example_position_restraint, no_changes))) = 100000 \<and>
   dr_spring_constant (fst (Distance_Restraint_set_k track_change 200000
      (example_distance_restraint, no_changes))) = 100000 \<and>
   pr_spring_constant (fst (Position_Restraint_set_k track_change 50
      (example_position_restraint, no_changes))) = 50 \<and>
   dr_spring_constant (fst (Distance_Restraint_set_k track_change 50
      (example_distance_restraint, no_changes))) = 50"
  using set_k_clamps [of "- 1" track_change example_position_restraint no_changes
          example_distance_restraint]
        set_k_clamps [of 200000 track_change example_position_restraint no_changes
          example_distance_restraint]
        set_k_clamps [of 50 track_change example_position_restraint no_changes
          example_distance_restraint]
  by (simp add: MAX_LINEAR_SPRING_CONSTANT_def)

text \<open>
  C6. The radius of a distance restraint scales with the square root of
  \<open>k / MAX_LINEAR_SPRING_CONSTANT\<close>, that of a position restraint linearly, each
  between \<open>LINEAR_RESTRAINT_MIN_RADIUS\<close> and \<open>LINEAR_RESTRAINT_MAX_RADIUS\<close>; with
  the values of constants.h these are the last three equations, the third for the
  spring constant 50 set through \<open>set_k\<close>.
\<close>

theorem radius_scaling:
  "Distance_Restraint_radius d =
     sqrt (dr_spring_constant d / MAX_LINEAR_SPRING_CONSTANT)
       * (LINEAR_RESTRAINT_MAX_RADIUS - LINEAR_RESTRAINT_MIN_RADIUS)
     + LINEAR_RESTRAINT_MIN_RADIUS \<and>
   Position_Restraint_radius p =
     pr_spring_constant p / MAX_LINEAR_SPRING_CONSTANT
       * (LINEAR_RESTRAINT_MAX_RADIUS - LINEAR_RESTRAINT_MIN_RADIUS)
     + LINEAR_RESTRAINT_MIN_RADIUS \<and>
   Distance_Restraint_radius d = sqrt (dr_spring_constant d / 100000) * (275 / 1000) + 25 / 1000 \<and>
   Position_Restraint_radius p = pr_spring_constant p / 100000 * (275 / 1000) + 25 / 1000 \<and>
   Distance_Restraint_radius (fst (Distance_Restraint_set_k track 50 (d, ct)))
     = sqrt (50 / 100000) * (275 / 1000) + 25 / 1000"
  by (simp add: Distance_Restraint_radius_def Position_Restraint_radius_def
      MAX_LINEAR_SPRING_CONSTANT_def LINEAR_RESTRAINT_MAX_RADIUS_def
      LINEAR_RESTRAINT_MIN_RADIUS_def)

section \<open>The floor of a distance target\<close>








section \<open>Change events of the setters\<close>

text \<open>
  C9. For a position restraint and for a distance restraint, with any tracker:
  \<open>set_enabled flag\<close> called twice gives the state that one call gives; when the
  flag differed from the stored one the tracker has received exactly one report of
  \<open>REASON_ENABLED_CHANGED\<close>, and none when it did not differ.
\<close>

theorem set_enabled_twice:
  "Position_Restraint_set_enabled track flag (Position_Restraint_set_enabled track flag (p, ct))
     = Position_Restraint_set_enabled track flag (p, ct) \<and>
   Distance_Restraint_set_enabled track flag (Distance_Restraint_set_enabled track flag (d, ct))
     = Distance_Restraint_set_enabled track flag (d, ct) \<and>
   (pr_enabled p \<noteq> flag \<longrightarrow>
      snd (Position_Restraint_set_enabled track flag (Position_Restraint_set_enabled track flag (p, ct)))
        = track (pr_mgr p) (pr_this p) REASON_ENABLED_CHANGED ct) \<and>
   (dr_enabled d \<noteq> flag \<longrightarrow>
      snd (Distance_Restraint_set_enabled track flag (Distance_Restraint_set_enabled track flag (d, ct)))
        = track (dr_mgr d) (dr_this d) REASON_ENABLED_CHANGED ct) \<and>
   (pr_enabled p = flag \<longrightarrow>
      snd (Position_Restraint_set_enabled track flag (Position_Restraint_set_enabled track flag (p, ct)))
        = ct) \<and>
   (dr_enabled d = flag \<longrightarrow>
      snd (Distance_Restraint_set_enabled track flag (Distance_Restraint_set_enabled track flag (d, ct)))
        = ct)"
  by simp

text \<open>C9, enabling and disabling the two disabled example restraints.\<close>

theorem set_enabled_twice_witness:
  "Position_Restraint_set_enabled track_change True
      (Position_Restraint_set_enabled track_change True (example_position_restraint, no_changes))
     = (example_position_restraint\<lparr>pr_enabled := True\<rparr>,
        track_change 50 200 REASON_ENABLED_CHANGED no_changes) \<and>
   Distance_Restraint_set_enabled track_change True
      (Distance_Restraint_set_enabled track_change True (example_distance_restraint, no_changes))
     = (example_distance_restraint\<lparr>dr_enabled := True\<rparr>,
        track_change 50 300 REASON_ENABLED_CHANGED no_changes) \<and>
   snd (Position_Restraint_set_enabled track_change False
      (Position_Restraint_set_enabled track_change False (example_position_restraint, no_changes)))
     = no_changes \<and>
   snd (Distance_Restraint_set_enabled track_change False
      (Distance_Restraint_set_enabled track_change False (example_distance_restraint, no_changes)))
     = no_changes"
  using set_enabled_twice [of track_change True example_position_restraint no_changes
          example_distance_restraint]
        set_enabled_twice [of track_change False example_position_restraint no_changes
          example_distance_restraint]
  by (simp add: example_position_restraint_def example_distance_restraint_def)

text \<open>
  C2, as stated, fails: writing the stored spring constant 50 again, or the stored
  target again, leaves the value as it was and still records the event.
\<close>

theorem setters_without_change_counterexample:
  "dr_spring_constant (fst (Distance_Restraint_set_k track_change 50
      (example_distance_restraint, no_changes))) = dr_spring_constant example_distance_restraint \<and>
   snd (Distance_Restraint_set_k track_change 50 (example_distance_restraint, no_changes)) (50, 300)
     = {REASON_SPRING_CONSTANT_CHANGED} \<and>
   no_changes (50, 300) = {} \<and>
   pr_target (fst (Position_Restraint_set_target track_change (1, 2, 3)
      (example_position_restraint, no_changes))) = pr_target example_position_restraint \<and>
   snd (Position_Restraint_set_target track_change (1, 2, 3)
      (example_position_restraint, no_changes)) (50, 200) = {REASON_TARGET_CHANGED}"
  by (simp add: example_distance_restraint_def example_position_restraint_def no_changes_def
      track_change_def MAX_LINEAR_SPRING_CONSTANT_def)

text \<open>
  C2, amended. \<open>set_target\<close> and \<open>set_k\<close> of both restraint classes report their
  reason (\<open>REASON_TARGET_CHANGED\<close>, \<open>REASON_SPRING_CONSTANT_CHANGED\<close>) on every call,
  whatever the stored value; \<open>set_enabled\<close> reports \<open>REASON_ENABLED_CHANGED\<close> and
  stores the flag when it differs from the stored one, and does nothing otherwise.
\<close>

theorem setters_record_changes:
  "snd (Position_Restraint_set_target track xyz (p, ct))
     = track (pr_mgr p) (pr_this p) REASON_TARGET_CHANGED ct \<and>
   snd (Position_Restraint_set_k track k (p, ct))
     = track (pr_mgr p) (pr_this p) REASON_SPRING_CONSTANT_CHANGED ct \<and>
   snd (Distance_Restraint_set_target track t (d, ct))
     = track (dr_mgr d) (dr_this d) REASON_TARGET_CHANGED ct \<and>
   snd (Distance_Restraint_set_k track k (d, ct))
     = track (dr_mgr d) (dr_this d) REASON_SPRING_CONSTANT_CHANGED ct \<and>
   (pr_enabled p \<noteq> flag \<longrightarrow>
      Position_Restraint_set_enabled track flag (p, ct)
        = (p\<lparr>pr_enabled := flag\<rparr>, track (pr_mgr p) (pr_this p) REASON_ENABLED_CHANGED ct)) \<and>
   (pr_enabled p = flag \<longrightarrow> Position_Restraint_set_enabled track flag (p, ct) = (p, ct)) \<and>
   (dr_enabled d \<noteq> flag \<longrightarrow>
      Distance_Restraint_set_enabled track flag (d, ct)
        = (d\<lparr>dr_enabled := flag\<rparr>, track (dr_mgr d) (dr_this d) REASON_ENABLED_CHANGED ct)) \<and>
   (dr_enabled d = flag \<longrightarrow> Distance_Restraint_set_enabled track flag (d, ct) = (d, ct))"
  by simp

text \<open>C2 amended, enabling and disabling the two disabled example restraints.\<close>

theorem setters_record_changes_witness:
  "Position_Restraint_set_enabled track_change True (example_position_restraint, no_changes)
     = (example_position_restraint\<lparr>pr_enabled := True\<rparr>,
        no_changes((50, 200) := {REASON_ENABLED_CHANGED})) \<and>
   Position_Restraint_set_enabled track_change False (example_position_restraint, no_changes)
     = (example_position_restraint, no_changes) \<and>
   Distance_Restraint_set_enabled track_change True (example_distance_restraint, no_changes)
     = (example_distance_restraint\<lparr>dr_enabled := True\<rparr>,
        no_changes((50, 300) := {REASON_ENABLED_CHANGED})) \<and>
   Distance_Restraint_set_enabled track_change False (example_distance_restraint, no_changes)
     = (example_distance_restraint, no_changes)"
  using setters_record_changes [of track_change _ example_position_restraint no_changes _ _
          example_distance_restraint True]
        setters_record_changes [of track_change _ example_position_restraint no_changes _ _
          example_distance_restraint False]
  by (simp add: example_distance_restraint_def example_position_restraint_def no_changes_def
      track_change_def)

section \<open>The target angle of a dihedral\<close>

lemma rint_even_near: "\<bar>q - of_int (rint_even q)\<bar> \<le> 1 / 2"
  unfolding rint_even_def by (auto simp: abs_le_iff; linarith)

lemma remainder_scaled:
  "0 < y \<Longrightarrow> remainder x y = (x / y - of_int (rint_even (x / y))) * y"
  by (simp add: remainder_def algebra_simps)

lemma remainder_bounds:
  assumes "0 < y"
  shows "- (y / 2) \<le> remainder x y \<and> remainder x y \<le> y / 2"
proof -
  define e where "e = x / y - of_int (rint_even (x / y))"
  have e: "- (1 / 2) \<le> e" "e \<le> 1 / 2"
    using rint_even_near [of "x / y"] unfolding e_def by linarith+
  have r: "remainder x y = e * y"
    using assms by (simp add: remainder_scaled e_def)
  have lo: "- (1 / 2) * y \<le> e * y"
    using e(1) assms by (intro mult_right_mono) simp_all
  have hi: "e * y \<le> 1 / 2 * y"
    using e(2) assms by (intro mult_right_mono) simp_all
  from lo hi show ?thesis
    unfolding r by linarith
qed

lemma rint_even_half_down:
  assumes "q - of_int (rint_even q) = - (1 / 2)"
  shows "even (rint_even q)"
proof -
  have f: "of_int \<lfloor>q\<rfloor> \<le> q" "q < of_int \<lfloor>q\<rfloor> + 1" by linarith+
  show ?thesis
  proof (cases "q - of_int \<lfloor>q\<rfloor> < 1 / 2")
    case True
    then have "rint_even q = \<lfloor>q\<rfloor>" by (simp add: rint_even_def)
    with assms f show ?thesis by simp
  next
    case False
    show ?thesis
    proof (cases "1 / 2 < q - of_int \<lfloor>q\<rfloor>")
      case True
      with False have "rint_even q = \<lfloor>q\<rfloor> + 1" by (simp add: rint_even_def)
      with assms True show ?thesis by simp
    next
      case half: False
      show ?thesis
      proof (cases "even \<lfloor>q\<rfloor>")
        case True
        with False half have "rint_even q = \<lfloor>q\<rfloor>" by (simp add: rint_even_def)
        with assms f show ?thesis by simp
      next
        case odd: False
        with False half have "rint_even q = \<lfloor>q\<rfloor> + 1" by (simp add: rint_even_def)
        with odd show ?thesis by simp
      qed
    qed
  qed
qed

text \<open>
  C5, as stated, fails at \<open>x = -\<pi>\<close>: the quotient \<open>-1/2\<close> is a tie, it rounds to the
  even integer 0, and the target stored is \<open>-\<pi>\<close>, outside the half-open interval.
\<close>

theorem dihedral_target_wraps_counterexample:
  "Dihedral_target (Dihedral_set_target (- pi) example_dihedral) = Some (- pi) \<and>
   - pi \<notin> {- pi <.. pi}"
  by (simp add: Dihedral_target_def Dihedral_set_target_def remainder_def rint_even_def
      TWO_PI_def)

text \<open>
  C5, amended. \<open>set_target x\<close> followed by \<open>target\<close> returns a value \<open>t\<close> of the
  closed interval from \<open>-\<pi>\<close> to \<open>\<pi>\<close> with \<open>x - t\<close> an integer multiple \<open>n\<close> of
  \<open>2\<pi>\<close>; the lower end \<open>-\<pi>\<close> is returned only at a tie, where \<open>n\<close> is even.
\<close>

theorem dihedral_target_wraps:
  "\<exists>t n. Dihedral_target (Dihedral_set_target x d) = Some t \<and>
          - pi \<le> t \<and> t \<le> pi \<and> x - t = of_int n * (2 * pi) \<and>
          (t = - pi \<longrightarrow> even n)"
proof -
  let ?n = "rint_even (x / TWO_PI)"
  let ?t = "remainder x TWO_PI"
  have pos: "0 < TWO_PI" by (simp add: TWO_PI_def)
  have 1: "Dihedral_target (Dihedral_set_target x d) = Some ?t"
    by (simp add: Dihedral_target_def Dihedral_set_target_def)
  have 2: "- pi \<le> ?t \<and> ?t \<le> pi"
    using remainder_bounds [OF pos, of x] by (simp add: TWO_PI_def)
  have 3: "x - ?t = of_int ?n * (2 * pi)"
    by (simp add: remainder_def TWO_PI_def)
  have 4: "even ?n" if "?t = - pi"
  proof -
    have "(x / TWO_PI - of_int ?n) * TWO_PI = - (1 / 2) * TWO_PI"
      using that remainder_scaled [OF pos, of x] by (simp add: TWO_PI_def)
    then have "x / TWO_PI - of_int ?n = - (1 / 2)"
      using pos by (simp only: mult_cancel_right) simp
    then show ?thesis by (rule rint_even_half_down)
  qed
  from 1 2 3 4 show ?thesis by blast
qed

text \<open>C5 amended, at \<open>x = -\<pi>\<close>, where the lower end is returned with \<open>n\<close> even.\<close>

theorem dihedral_target_wraps_witness:
  "\<exists>t n. Dihedral_target (Dihedral_set_target (- pi) example_dihedral) = Some t \<and>
          t = - pi \<and> - pi - t = of_int n * (2 * pi) \<and> even n"
proof -
  have v: "Dihedral_target (Dihedral_set_target (- pi) example_dihedral) = Some (- pi)"
    by (simp add: Dihedral_target_def Dihedral_set_target_def remainder_def rint_even_def
        TWO_PI_def)
  from dihedral_target_wraps [of "- pi" example_dihedral] obtain t n where
    "Dihedral_target (Dihedral_set_target (- pi) example_dihedral) = Some t"
    "- pi - t = of_int n * (2 * pi)" "t = - pi \<longrightarrow> even n"
    by blast
  with v show ?thesis by auto
qed

section \<open>The registry of dihedral definitions\<close>

text \<open>
  C8. \<open>add_dihedral_def\<close> for a pair of residue type and name that has a
  definition fails with the error of the duplicate and leaves the manager as it was;
  for a pair without one it succeeds and \<open>get_dihedral_def\<close> then returns the atom
  names and flags given. The definitions of all other pairs read as before.
\<close>

theorem add_dihedral_def_duplicate:
  "(get_dihedral_def rname dname m = Inr dd \<longrightarrow>
      add_dihedral_def rname dname anames externals m
        = (Some (runtime_error Dihedral_definition_already_exists), m)) \<and>
   ((\<forall>dd. get_dihedral_def rname dname m \<noteq> Inr dd) \<longrightarrow>
      fst (add_dihedral_def rname dname anames externals m) = None \<and>
      get_dihedral_def rname dname (snd (add_dihedral_def rname dname anames externals m))
        = Inr (anames, externals)) \<and>
   ((rn, dn) \<noteq> (rname, dname) \<longrightarrow>
      get_dihedral_def rn dn (snd (add_dihedral_def rname dname anames externals m))
        = get_dihedral_def rn dn m)"
proof -
  have dup: "add_dihedral_def rname dname anames externals m
        = (Some (runtime_error Dihedral_definition_already_exists), m)"
    if "get_dihedral_def rname dname m = Inr dd"
  proof -
    from that obtain am where am: "residue_name_map m rname = Some am" "am dname = Some dd"
      by (auto simp: get_dihedral_def_def split: option.splits)
    then have "(residue_name_map m)(rname \<mapsto> am) = residue_name_map m"
      by (simp add: fun_upd_idem)
    with am show ?thesis
      by (simp add: add_dihedral_def_def)
  qed
  have new: "fst (add_dihedral_def rname dname anames externals m) = None \<and>
      get_dihedral_def rname dname (snd (add_dihedral_def rname dname anames externals m))
        = Inr (anames, externals)"
    if "\<forall>dd. get_dihedral_def rname dname m \<noteq> Inr dd"
    using that
    by (auto simp: add_dihedral_def_def get_dihedral_def_def Let_def split: option.splits)
  have other: "get_dihedral_def rn dn (snd (add_dihedral_def rname dname anames externals m))
        = get_dihedral_def rn dn m"
    if "(rn, dn) \<noteq> (rname, dname)"
    using that
    by (auto simp: add_dihedral_def_def get_dihedral_def_def Let_def split: option.splits)
  from dup new other show ?thesis by blast
qed

text \<open>C8, adding phi of ALA to an empty manager, and then a second time.\<close>

theorem add_dihedral_def_witness:
  "fst (add_dihedral_def ''ALA'' ''phi'' [''C'', ''N'', ''CA'', ''C'']
          [True, False, False, False] empty_mgr) = None \<and>
   get_dihedral_def ''ALA'' ''phi'' example_def_mgr
     = Inr ([''C'', ''N'', ''CA'', ''C''], [True, False, False, False]) \<and>
   add_dihedral_def ''ALA'' ''phi'' [''N'', ''CA'', ''C'', ''N''] [False, False, False, True]
       example_def_mgr
     = (Some (runtime_error Dihedral_definition_already_exists), example_def_mgr) \<and>
   get_dihedral_def ''ALA'' ''psi'' example_def_mgr
     = Inl (out_of_range Unrecognised_dihedral_def)"
  using add_dihedral_def_duplicate [of "''ALA''" "''phi''" empty_mgr _
          "[''C'', ''N'', ''CA'', ''C'']" "[True, False, False, False]" "''ALA''" "''psi''"]
        add_dihedral_def_duplicate [of "''ALA''" "''phi''" example_def_mgr
          "([''C'', ''N'', ''CA'', ''C''], [True, False, False, False])"
          "[''N'', ''CA'', ''C'', ''N'']" "[False, False, False, True]"]
  by (simp add: example_def_mgr_def empty_mgr_def get_dihedral_def_def add_dihedral_def_def)

section \<open>The vector of dihedrals\<close>

lemma dihedrals_add_dihedral:
  "dihedrals (add_dihedral heap d m) =
     (if d \<in> set (dihedrals m) then dihedrals m else dihedrals m @ [d])"
  by (simp add: add_dihedral_def Let_def split: sum.splits)

lemma distinct_add_dihedral:
  "distinct (dihedrals m) \<Longrightarrow> distinct (dihedrals (add_dihedral heap d m))"
  by (simp add: dihedrals_add_dihedral)

lemma distinct_add_dihedrals:
  "distinct (dihedrals m) \<Longrightarrow> distinct (dihedrals (add_dihedrals heap ds m))"
  by (induction ds arbitrary: m) (simp_all add: distinct_add_dihedral)

lemma set_add_dihedrals:
  "set (dihedrals (add_dihedrals heap ds m)) = set (dihedrals m) \<union> set ds"
  by (induction ds arbitrary: m) (auto simp: dihedrals_add_dihedral)

lemma count_list_distinct:
  "distinct xs \<Longrightarrow> x \<in> set xs \<Longrightarrow> count_list xs x = 1"
  by (induction xs) auto

text \<open>
  C10. \<open>add_dihedral\<close> with a pointer that the vector holds leaves the vector as it
  is. After any sequence of calls on a new manager, or on one whose vector has no
  repeats, the vector has no repeats, each pointer added occurs exactly once, and
  adding it once more changes neither the vector nor its length.
\<close>

theorem add_dihedral_idempotent:
  "(d \<in> set (dihedrals m) \<longrightarrow> dihedrals (add_dihedral heap d m) = dihedrals m) \<and>
   distinct (dihedrals (add_dihedrals heap ds empty_mgr)) \<and>
   (d \<in> set ds \<longrightarrow> count_list (dihedrals (add_dihedrals heap ds empty_mgr)) d = 1) \<and>
   (distinct (dihedrals m) \<longrightarrow>
      distinct (dihedrals (add_dihedrals heap ds m)) \<and>
      (d \<in> set ds \<longrightarrow>
         count_list (dihedrals (add_dihedrals heap ds m)) d = 1 \<and>
         dihedrals (add_dihedral heap d (add_dihedrals heap ds m))
           = dihedrals (add_dihedrals heap ds m) \<and>
         length (dihedrals (add_dihedral heap d (add_dihedrals heap ds m)))
           = length (dihedrals (add_dihedrals heap ds m))))"
proof -
  have a: "dihedrals (add_dihedral heap d m) = dihedrals m" if "d \<in> set (dihedrals m)"
    using that by (simp add: dihedrals_add_dihedral)
  have b: "distinct (dihedrals (add_dihedrals heap ds m'))" if "distinct (dihedrals m')" for m'
    using that by (rule distinct_add_dihedrals)
  have c: "count_list (dihedrals (add_dihedrals heap ds m')) d = 1"
    if "distinct (dihedrals m')" "d \<in> set ds" for m'
    using that by (simp add: count_list_distinct distinct_add_dihedrals set_add_dihedrals)
  have e: "dihedrals (add_dihedral heap d (add_dihedrals heap ds m))
           = dihedrals (add_dihedrals heap ds m)" if "d \<in> set ds"
    using that by (simp add: dihedrals_add_dihedral set_add_dihedrals)
  have z: "distinct (dihedrals empty_mgr)"
    by (simp add: empty_mgr_def)
  from a b [of m] b [OF z] c [of m] c [OF z] e show ?thesis by simp
qed

text \<open>C10, adding the pointers 101, 100, 101, 102, 100 to a manager that holds 100.\<close>

theorem add_dihedral_idempotent_witness:
  "dihedrals example_mgr = [100] \<and>
   dihedrals (add_dihedral example_heap 100 example_mgr) = [100] \<and>
   dihedrals (add_dihedrals example_heap [101, 100, 101, 102, 100] example_mgr) = [100, 101, 102] \<and>
   count_list (dihedrals (add_dihedrals example_heap [101, 100, 101, 102, 100] example_mgr)) 101 = 1 \<and>
   dihedrals (add_dihedral example_heap 101
      (add_dihedrals example_heap [101, 100, 101, 102, 100] example_mgr)) = [100, 101, 102]"
  using add_dihedral_idempotent [of 100 example_mgr example_heap "[]"]
        add_dihedral_idempotent [of 101 example_mgr example_heap "[101, 100, 101, 102, 100]"]
  by (simp add: example_mgr_def empty_mgr_def dihedrals_add_dihedral)

section \<open>Destruction of atoms, residues and dihedrals\<close>

text \<open>
  What \<open>destructors_done\<close> does: an entry of the index leaves when the residue it
  is filed under or the dihedral itself is among the destroyed addresses, and the
  count falls by the number of such entries. The atoms of a dihedral are not read.
\<close>

lemma count_dmap_length: "count_dmap dm c = c + length dm"
  by (induction dm arbitrary: c) simp_all

lemma count_rmap_length: "count_rmap rm c = c + length (rmap_entries rm)"
  by (induction rm arbitrary: c) (simp_all add: count_dmap_length)

lemma num_mapped_dihedrals_length:
  "num_mapped_dihedrals m = length (mapped_dihedrals m)"
  by (simp add: num_mapped_dihedrals_def mapped_dihedrals_def count_rmap_length)

lemma purge_dmap_filter: "purge_dmap D dm = filter (\<lambda>e. snd e \<notin> D) dm"
  by (induction dm) simp_all

lemma purge_rmap_entries:
  "rmap_entries (purge_rmap D rm)
     = filter (\<lambda>e. fst e \<notin> D \<and> snd (snd e) \<notin> D) (rmap_entries rm)"
  by (induction rm) (simp_all add: purge_dmap_filter filter_map comp_def)

lemma mapped_dihedrals_destructors_done:
  "mapped_dihedrals (destructors_done D m)
     = filter (\<lambda>e. fst e \<notin> D \<and> snd (snd e) \<notin> D) (mapped_dihedrals m)"
  by (simp add: mapped_dihedrals_def destructors_done_def purge_rmap_entries)

lemma num_mapped_dihedrals_destructors_done:
  "num_mapped_dihedrals (destructors_done D m)
     + length (filter (\<lambda>e. fst e \<in> D \<or> snd (snd e) \<in> D) (mapped_dihedrals m))
   = num_mapped_dihedrals m"
  using sum_length_filter_compl [of "\<lambda>e. fst e \<notin> D \<and> snd (snd e) \<notin> D" "mapped_dihedrals m"]
  by (simp add: num_mapped_dihedrals_length mapped_dihedrals_destructors_done)

text \<open>
  C1. The manager holds the dihedral 100 over the atoms 11 to 14, filed under residue
  10 and the name phi. Told that atom 11 is destroyed, \<open>destructors_done\<close> leaves the
  manager as it was: the dihedral that references atom 11 is still mapped and
  \<open>num_mapped_dihedrals\<close> is still 1. The entry leaves only when the address of the
  dihedral itself is among the destroyed ones.
\<close>

theorem destructors_done_ignores_atoms:
  "mapped_dihedrals example_mgr = [(10, ''phi'', 100)] \<and>
   d_atoms (example_heap 100) = [11, 12, 13, 14] \<and>
   num_mapped_dihedrals example_mgr = 1 \<and>
   destructors_done {11} example_mgr = example_mgr \<and>
   mapped_dihedrals (destructors_done {11} example_mgr) = [(10, ''phi'', 100)] \<and>
   num_mapped_dihedrals (destructors_done {11} example_mgr) = 1 \<and>
   mapped_dihedrals (destructors_done {11, 100} example_mgr) = [] \<and>
   num_mapped_dihedrals (destructors_done {11, 100} example_mgr) = 0"
  by (simp add: example_mgr_def empty_mgr_def example_heap_def example_dihedral_def
      add_dihedral_def Dihedral_residue_def dmap_of_def mapped_dihedrals_def
      num_mapped_dihedrals_def destructors_done_def)

section \<open>Looking up and creating restraints\<close>

lemma get_restraint_existing:
  "pm_atom_to_restraint m atom = Some r \<Longrightarrow>
   get_restraint track atoms fresh atom create (m, ct) = Inr (Some r, m, ct)"
  by (simp add: get_restraint_def)

lemma get_restraint_absent:
  "pm_atom_to_restraint m atom = None \<Longrightarrow>
   get_restraint track atoms fresh atom False (m, ct) = Inr (None, m, ct)"
  by (simp add: get_restraint_def)

lemma get_restraint_create:
  assumes "pm_atom_to_restraint m atom = None"
    and "a_structure (atoms atom) = pm_atomic_model m"
    and "a_element_number (atoms atom) \<noteq> 1"
  shows "\<exists>r' m' ct'. get_restraint track atoms fresh atom True (m, ct) = Inr (Some r', m', ct') \<and>
           pr_spring_constant r' = 0 \<and> \<not> pr_enabled r' \<and>
           pr_target r' = a_coord (atoms atom) \<and> pr_atom r' = atom \<and>
           pm_atom_to_restraint m' atom = Some r'"
  using assms
  by (simp add: get_restraint_def new_restraint_def new_restraint_target_def
      Position_Restraint_ctor_def)

lemma get_restraint_wrong_structure:
  "pm_atom_to_restraint m atom = None \<Longrightarrow>
   a_structure (atoms atom) \<noteq> pm_atomic_model m \<Longrightarrow>
   get_restraint track atoms fresh atom True (m, ct) = Inl (logic_error error_different_mol)"
  by (simp add: get_restraint_def new_restraint_def new_restraint_target_def)

lemma get_restraint_hydrogen:
  "pm_atom_to_restraint m atom = None \<Longrightarrow>
   a_structure (atoms atom) = pm_atomic_model m \<Longrightarrow>
   a_element_number (atoms atom) = 1 \<Longrightarrow>
   get_restraint track atoms fresh atom True (m, ct) = Inl (logic_error error_hydrogen)"
  by (simp add: get_restraint_def new_restraint_def new_restraint_target_def)

lemma distance_get_restraint_existing:
  "find_restraint a1 a2 (dm_restraints dm) = Some dr \<Longrightarrow>
   Distance_Restraint_Mgr_get_restraint atoms fresh t0 a1 a2 create dm = Inr (Some dr, dm)"
  by (simp add: Distance_Restraint_Mgr_get_restraint_def)

lemma distance_get_restraint_absent:
  "find_restraint a1 a2 (dm_restraints dm) = None \<Longrightarrow>
   Distance_Restraint_Mgr_get_restraint atoms fresh t0 a1 a2 False dm = Inr (None, dm)"
  by (simp add: Distance_Restraint_Mgr_get_restraint_def)

lemma distance_get_restraint_create:
  assumes "find_restraint a1 a2 (dm_restraints dm) = None"
    and "a_structure (atoms a1) = dm_atomic_model dm"
    and "a_structure (atoms a2) = dm_atomic_model dm"
    and "\<not> bonded_to a2 (a_bonds (atoms a1))"
  shows "\<exists>r' dm'. Distance_Restraint_Mgr_get_restraint atoms fresh t0 a1 a2 True dm
             = Inr (Some r', dm') \<and>
           dr_spring_constant r' = 0 \<and> \<not> dr_enabled r' \<and> dr_atoms r' = (a1, a2) \<and>
           find_restraint a1 a2 (dm_restraints dm') = Some r'"
  using assms
  by (simp add: Distance_Restraint_Mgr_get_restraint_def Distance_Restraint_ctor_def
      Distance_Restraint_blank_def find_restraint_def)

lemma distance_get_restraint_wrong_structure:
  "find_restraint a1 a2 (dm_restraints dm) = None \<Longrightarrow>
   a_structure (atoms a1) \<noteq> dm_atomic_model dm \<or> a_structure (atoms a2) \<noteq> dm_atomic_model dm \<Longrightarrow>
   Distance_Restraint_Mgr_get_restraint atoms fresh t0 a1 a2 True dm
     = Inl (logic_error error_different_mol)"
  by (auto simp: Distance_Restraint_Mgr_get_restraint_def)

lemma distance_get_restraint_bonded:
  "find_restraint a1 a2 (dm_restraints dm) = None \<Longrightarrow>
   a_structure (atoms a1) = dm_atomic_model dm \<Longrightarrow>
   a_structure (atoms a2) = dm_atomic_model dm \<Longrightarrow>
   bonded_to a2 (a_bonds (atoms a1)) \<Longrightarrow>
   Distance_Restraint_Mgr_get_restraint atoms fresh t0 a1 a2 True dm
     = Inl (logic_error err_msg_bonded)"
  by (simp add: Distance_Restraint_Mgr_get_restraint_def Distance_Restraint_ctor_def)

text \<open>
  C3. \<open>get_restraint\<close> returns the restraint of the atom (of the atom pair) when
  there is one; when there is none and \<open>create\<close> is false it returns null without an
  error; when there is none and \<open>create\<close> is true it constructs a restraint with
  spring constant 0, disabled, registered for the atom and, in the position case, with
  the atom's coordinate as target, unless the atom is of another structure than the
  manager's, or is a hydrogen (position case), or the two atoms are bonded (distance
  case), which fail with a \<open>logic_error\<close>.
\<close>

theorem get_restraint_cases:
  "(pm_atom_to_restraint m atom = Some r \<longrightarrow>
      get_restraint track atoms fresh atom create (m, ct) = Inr (Some r, m, ct)) \<and>
   (pm_atom_to_restraint m atom = None \<longrightarrow>
      get_restraint track atoms fresh atom False (m, ct) = Inr (None, m, ct)) \<and>
   (pm_atom_to_restraint m atom = None \<and> a_structure (atoms atom) = pm_atomic_model m \<and>
    a_element_number (atoms atom) \<noteq> 1 \<longrightarrow>
      (\<exists>r' m' ct'. get_restraint track atoms fresh atom True (m, ct) = Inr (Some r', m', ct') \<and>
         pr_spring_constant r' = 0 \<and> \<not> pr_enabled r' \<and>
         pr_target r' = a_coord (atoms atom) \<and> pr_atom r' = atom \<and>
         pm_atom_to_restraint m' atom = Some r')) \<and>
   (pm_atom_to_restraint m atom = None \<and> a_structure (atoms atom) \<noteq> pm_atomic_model m \<longrightarrow>
      get_restraint track atoms fresh atom True (m, ct) = Inl (logic_error error_different_mol)) \<and>
   (pm_atom_to_restraint m atom = None \<and> a_structure (atoms atom) = pm_atomic_model m \<and>
    a_element_number (atoms atom) = 1 \<longrightarrow>
      get_restraint track atoms fresh atom True (m, ct) = Inl (logic_error error_hydrogen)) \<and>
   (bonded_to a2 (a_bonds (atoms a1)) \<longrightarrow>
      Distance_Restraint_ctor atoms blank a1 a2 mgr = Inl (logic_error err_msg_bonded)) \<and>
   (find_restraint a1 a2 (dm_restraints dm) = Some dr \<longrightarrow>
      Distance_Restraint_Mgr_get_restraint atoms fresh t0 a1 a2 create dm = Inr (Some dr, dm)) \<and>
   (find_restraint a1 a2 (dm_restraints dm) = None \<longrightarrow>
      Distance_Restraint_Mgr_get_restraint atoms fresh t0 a1 a2 False dm = Inr (None, dm)) \<and>
   (find_restraint a1 a2 (dm_restraints dm) = None \<and>
    a_structure (atoms a1) = dm_atomic_model dm \<and> a_structure (atoms a2) = dm_atomic_model dm \<and>
    \<not> bonded_to a2 (a_bonds (atoms a1)) \<longrightarrow>
      (\<exists>r' dm'. Distance_Restraint_Mgr_get_restraint atoms fresh t0 a1 a2 True dm
             = Inr (Some r', dm') \<and>
         dr_spring_constant r' = 0 \<and> \<not> dr_enabled r' \<and> dr_atoms r' = (a1, a2) \<and>
         find_restraint a1 a2 (dm_restraints dm') = Some r')) \<and>
   (find_restraint a1 a2 (dm_restraints dm) = None \<and>
    (a_structure (atoms a1) \<noteq> dm_atomic_model dm \<or> a_structure (atoms a2) \<noteq> dm_atomic_model dm) \<longrightarrow>
      Distance_Restraint_Mgr_get_restraint atoms fresh t0 a1 a2 True dm
        = Inl (logic_error error_different_mol)) \<and>
   (find_restraint a1 a2 (dm_restraints dm) = None \<and>
    a_structure (atoms a1) = dm_atomic_model dm \<and> a_structure (atoms a2) = dm_atomic_model dm \<and>
    bonded_to a2 (a_bonds (atoms a1)) \<longrightarrow>
      Distance_Restraint_Mgr_get_restraint atoms fresh t0 a1 a2 True dm
        = Inl (logic_error err_msg_bonded))"
  using get_restraint_existing [of m atom r track atoms fresh create ct]
    get_restraint_absent [of m atom track atoms fresh ct]
    get_restraint_create [of m atom atoms track fresh ct]
    get_restraint_wrong_structure [of m atom atoms track fresh ct]
    get_restraint_hydrogen [of m atom atoms track fresh ct]
    distance_get_restraint_existing [of a1 a2 dm dr atoms fresh t0 create]
    distance_get_restraint_absent [of a1 a2 dm atoms fresh t0]
    distance_get_restraint_create [of a1 a2 dm atoms fresh t0]
    distance_get_restraint_wrong_structure [of a1 a2 dm atoms fresh t0]
    distance_get_restraint_bonded [of a1 a2 dm atoms fresh t0]
  by (simp add: Distance_Restraint_ctor_def)

text \<open>
  C3, on the example structure: atom 11 and the pair 17, 11 have a restraint, atom 12
  and the pair 11, 13 have none, atom 16 is of another structure, atom 15 is a
  hydrogen, and atoms 11 and 12 are bonded.
\<close>

theorem get_restraint_cases_witness:
  "get_restraint track_change example_atoms 201 11 True (example_position_mgr, no_changes)
     = Inr (Some example_position_restraint, example_position_mgr, no_changes) \<and>
   get_restraint track_change example_atoms 201 12 False (example_position_mgr, no_changes)
     = Inr (None, example_position_mgr, no_changes) \<and>
   (\<exists>r' m' ct'.
      get_restraint track_change example_atoms 201 12 True (example_position_mgr, no_changes)
        = Inr (Some r', m', ct') \<and>
      pr_spring_constant r' = 0 \<and> \<not> pr_enabled r' \<and> pr_target r' = (1, 0, 0) \<and>
      pr_atom r' = 12 \<and> pm_atom_to_restraint m' 12 = Some r') \<and>
   get_restraint track_change example_atoms 201 16 True (example_position_mgr, no_changes)
     = Inl (logic_error error_different_mol) \<and>
   get_restraint track_change example_atoms 201 15 True (example_position_mgr, no_changes)
     = Inl (logic_error error_hydrogen) \<and>
   Distance_Restraint_ctor example_atoms (Distance_Restraint_blank 301 0) 11 12 50
     = Inl (logic_error err_msg_bonded) \<and>
   Distance_Restraint_Mgr_get_restraint example_atoms 201 0 17 11 True example_distance_mgr
     = Inr (Some example_distance_restraint, example_distance_mgr) \<and>
   Distance_Restraint_Mgr_get_restraint example_atoms 201 0 11 13 False example_distance_mgr
     = Inr (None, example_distance_mgr) \<and>
   (\<exists>r' dm'.
      Distance_Restraint_Mgr_get_restraint example_atoms 201 0 11 13 True example_distance_mgr
        = Inr (Some r', dm') \<and>
      dr_spring_constant r' = 0 \<and> \<not> dr_enabled r' \<and> dr_atoms r' = (11, 13) \<and>
      find_restraint 11 13 (dm_restraints dm') = Some r') \<and>
   Distance_Restraint_Mgr_get_restraint example_atoms 201 0 11 16 True example_distance_mgr
     = Inl (logic_error error_different_mol) \<and>
   Distance_Restraint_Mgr_get_restraint example_atoms 201 0 11 12 True example_distance_mgr
     = Inl (logic_error err_msg_bonded)"
proof -
  have pm: "pm_atom_to_restraint example_position_mgr 11 = Some example_position_restraint"
    "pm_atom_to_restraint example_position_mgr 12 = None"
    "pm_atom_to_restraint example_position_mgr 15 = None"
    "pm_atom_to_restraint example_position_mgr 16 = None"
    "pm_atomic_model example_position_mgr = 1000"
    by (simp_all add: example_position_mgr_def)
  have dm: "find_restraint 17 11 (dm_restraints example_distance_mgr) = Some example_distance_restraint"
    "find_restraint 11 13 (dm_restraints example_distance_mgr) = None"
    "find_restraint 11 16 (dm_restraints example_distance_mgr) = None"
    "find_restraint 11 12 (dm_restraints example_distance_mgr) = None"
    "dm_atomic_model example_distance_mgr = 1000"
    by (simp_all add: example_distance_mgr_def example_distance_restraint_def find_restraint_def)
  have at: "a_structure (example_atoms 11) = 1000" "a_structure (example_atoms 12) = 1000"
    "a_structure (example_atoms 13) = 1000" "a_structure (example_atoms 15) = 1000"
    "a_structure (example_atoms 16) = 2000"
    "a_element_number (example_atoms 12) = 6" "a_element_number (example_atoms 15) = 1"
    "a_coord (example_atoms 12) = (1, 0, 0)"
    "bonded_to 12 (a_bonds (example_atoms 11))" "\<not> bonded_to 13 (a_bonds (example_atoms 11))"
    by (simp_all add: example_atoms_def bonded_to_def)
  show ?thesis
    using
      get_restraint_cases [where m = example_position_mgr and atom = 11
        and r = example_position_restraint and track = track_change and atoms = example_atoms
        and fresh = 201 and create = True and ct = no_changes and ?a1.0 = 17 and ?a2.0 = 11
        and dm = example_distance_mgr and dr = example_distance_restraint and ?t0.0 = 0]
      get_restraint_cases [where m = example_position_mgr and atom = 12
        and track = track_change and atoms = example_atoms
        and fresh = 201 and ct = no_changes and ?a1.0 = 11 and ?a2.0 = 13
        and dm = example_distance_mgr and ?t0.0 = 0]
      get_restraint_cases [where m = example_position_mgr and atom = 16
        and track = track_change and atoms = example_atoms
        and fresh = 201 and ct = no_changes and ?a1.0 = 11 and ?a2.0 = 16
        and dm = example_distance_mgr and ?t0.0 = 0]
      get_restraint_cases [where m = example_position_mgr and atom = 15
        and track = track_change and atoms = example_atoms
        and fresh = 201 and ct = no_changes and ?a1.0 = 11 and ?a2.0 = 12
        and dm = example_distance_mgr and ?t0.0 = 0
        and blank = "Distance_Restraint_blank 301 0" and mgr = 50]
    by (simp add: pm dm at)
qed

end
